theory Spec2Isabelle
  imports Complex_Main "HOL-Library.Sublist" "HOL-Library.AList"
begin

section \<open>The Linkwarden API client (src/graphs/linkwarden\_api.py)\<close>

text \<open>
  The client is a thin layer over the third-party \<^verbatim>\<open>requests\<close> library: a constructor
  that validates the base URL, one request routine that turns HTTP and transport failures
  into the exceptions of \<^verbatim>\<open>linkwarden_exceptions.py\<close>, and one method per endpoint.
  The embedding keeps that shape. Python strings are \<open>string\<close>; the only string
  operations of the source (\<^verbatim>\<open>startswith\<close>, \<^verbatim>\<open>endswith('/')\<close>, \<^verbatim>\<open>[:-1]\<close>, f-string
  concatenation) look at ASCII characters only, so they agree on code points and on bytes.
  An exception is a value: every \<^verbatim>\<open>raise\<close> is an \<open>Inl\<close>.
\<close>

subsection \<open>Python values\<close>

type_synonym bytes = "char list"

text \<open>What \<^verbatim>\<open>response.json()\<close> produces, and what a payload dictionary is.\<close>

datatype json = JNull | JBool bool | JInt int | JFloat real | JString string
  | JArray "json list" | JObject "(string \<times> json) list"

text \<open>\<^verbatim>\<open>d[key]\<close> on a parsed value; \<open>None\<close> is Python's KeyError or TypeError.\<close>

fun json_get :: "json \<Rightarrow> string \<Rightarrow> json option" where
  "json_get (JObject kvs) k = map_of kvs k"
| "json_get _ k = None"

text \<open>\<^verbatim>\<open>str(n)\<close> for an integer: decimal digits, a minus sign when negative.\<close>

definition digit_char :: "nat \<Rightarrow> char" where
  "digit_char d = ''0123456789'' ! d"

function str_nat :: "nat \<Rightarrow> string" where
  "str_nat n = (if n < 10 then [digit_char n] else str_nat (n div 10) @ [digit_char (n mod 10)])"
  by pat_completeness auto
termination
  by (relation "measure id") auto

definition str_int :: "int \<Rightarrow> string" where
  "str_int i = (if i < 0 then CHR ''-'' # str_nat (nat (- i)) else str_nat (nat i))"

subsection \<open>The part of \<^verbatim>\<open>requests\<close> the client touches\<close>

text \<open>
  A \<^verbatim>\<open>requests.Response\<close> as the client reads it: \<^verbatim>\<open>status_code\<close>, \<^verbatim>\<open>content\<close>
  (bytes), \<^verbatim>\<open>text\<close> (the decoded body) and the outcome of \<^verbatim>\<open>json()\<close>, where \<open>None\<close>
  stands for \<^verbatim>\<open>requests.exceptions.JSONDecodeError\<close>: the body is not valid JSON.
  \<^verbatim>\<open>reason\<close> and \<^verbatim>\<open>url\<close> only feed the message of the library's HTTPError.
\<close>

record response =
  status_code :: int
  reason :: string
  resp_url :: string
  content :: bytes
  resp_text :: string
  json_body :: "json option"

text \<open>
  The exception classes in play. The four Linkwarden classes are those of
  \<^verbatim>\<open>linkwarden_exceptions.py\<close>; the others are Python's and the library's.
\<close>

datatype exc_class = Exception | ValueError | AttributeError | OSError
  | RequestException | HTTPError | ConnectionError | Timeout
  | LinkwardenAPIError | LinkwardenAuthError | LinkwardenNotFoundError | LinkwardenServerError

text \<open>
  The class statements: \<^verbatim>\<open>class LinkwardenAPIError(Exception)\<close>,
  \<^verbatim>\<open>class LinkwardenAuthError(LinkwardenAPIError)\<close>, and so on.
\<close>

fun base :: "exc_class \<Rightarrow> exc_class option" where
  "base Exception = None"
| "base ValueError = Some Exception"
| "base AttributeError = Some Exception"
| "base OSError = Some Exception"
| "base RequestException = Some OSError"
| "base HTTPError = Some RequestException"
| "base ConnectionError = Some RequestException"
| "base Timeout = Some RequestException"
| "base LinkwardenAPIError = Some Exception"
| "base LinkwardenAuthError = Some LinkwardenAPIError"
| "base LinkwardenNotFoundError = Some LinkwardenAPIError"
| "base LinkwardenServerError = Some LinkwardenAPIError"

fun rank :: "exc_class \<Rightarrow> nat" where
  "rank Exception = 0"
| "rank ValueError = 1"
| "rank AttributeError = 1"
| "rank OSError = 1"
| "rank RequestException = 2"
| "rank HTTPError = 3"
| "rank ConnectionError = 3"
| "rank Timeout = 3"
| "rank LinkwardenAPIError = 1"
| "rank LinkwardenAuthError = 2"
| "rank LinkwardenNotFoundError = 2"
| "rank LinkwardenServerError = 2"

function issubclass :: "exc_class \<Rightarrow> exc_class \<Rightarrow> bool" where
  "issubclass c d = (c = d \<or> (case base c of None \<Rightarrow> False | Some b \<Rightarrow> issubclass b d))"
  by pat_completeness auto
termination
  by (relation "measure (\<lambda>(c, d). rank c)") (auto elim: base.elims)

declare issubclass.simps [simp del]

text \<open>
  An exception object: its class, \<^verbatim>\<open>str(e)\<close>, the \<^verbatim>\<open>response\<close> attribute (set on the
  library's HTTPError) and \<^verbatim>\<open>__cause__\<close> (set by \<^verbatim>\<open>raise ... from e\<close>).
\<close>

datatype py_exc = PyExc (exc_cls: exc_class) (exc_msg: string)
  (exc_response: "response option") (exc_cause: "py_exc option")

text \<open>What an \<^verbatim>\<open>except C\<close> clause and a caller's \<^verbatim>\<open>except C\<close> test.\<close>

definition isinstance :: "py_exc \<Rightarrow> exc_class \<Rightarrow> bool" where
  "isinstance e c = issubclass (exc_cls e) c"

text \<open>
  \<^verbatim>\<open>Response.raise_for_status\<close>, as the library defines it: an HTTPError carrying the
  response for a status in [400, 500) and in [500, 600), nothing otherwise.
  \<open>None\<close> is a normal return.
\<close>

definition raise_for_status :: "response \<Rightarrow> py_exc option" where
  "raise_for_status r =
     (if 400 \<le> status_code r \<and> status_code r < 500 then
        Some (PyExc HTTPError
          (str_int (status_code r) @ '' Client Error: '' @ reason r @ '' for url: '' @ resp_url r)
          (Some r) None)
      else if 500 \<le> status_code r \<and> status_code r < 600 then
        Some (PyExc HTTPError
          (str_int (status_code r) @ '' Server Error: '' @ reason r @ '' for url: '' @ resp_url r)
          (Some r) None)
      else None)"

text \<open>\<^verbatim>\<open>Response.ok\<close>: true iff \<^verbatim>\<open>raise_for_status\<close> raises nothing.\<close>

definition ok :: "response \<Rightarrow> bool" where
  "ok r = (raise_for_status r = None)"

text \<open>
  The keyword arguments the public operations pass on: \<^verbatim>\<open>json=\<close> and \<^verbatim>\<open>params=\<close>.
\<close>

record kwargs =
  json_kw :: "json option"
  params_kw :: "(string \<times> string) list option"

definition no_kwargs :: kwargs where
  "no_kwargs = \<lparr>json_kw = None, params_kw = None\<rparr>"

record http_request =
  req_method :: string
  req_url :: string
  req_headers :: "(string \<times> string) list"
  req_kwargs :: kwargs

text \<open>
  The network is a parameter: whatever is at the other end either answers a request or
  the call raises. The state threaded through the client is the log of the requests
  handed to \<^verbatim>\<open>session.request\<close>, oldest first.
\<close>

datatype outcome = Responds response | Raises py_exc

type_synonym transport = "http_request \<Rightarrow> outcome"

type_synonym wire = "http_request list"

definition session_request :: "transport \<Rightarrow> http_request \<Rightarrow> wire \<Rightarrow> outcome \<times> wire" where
  "session_request tr rq w = (tr rq, w @ [rq])"

text \<open>
  The headers of a fresh \<^verbatim>\<open>requests.Session()\<close> (the library's version suffix of the
  user agent left out).
\<close>

definition default_headers :: "(string \<times> string) list" where
  "default_headers =
     [(''User-Agent'', ''python-requests''), (''Accept-Encoding'', ''gzip, deflate''),
      (''Accept'', ''*/*''), (''Connection'', ''keep-alive'')]"

subsection \<open>The client\<close>

record client =
  base_url :: string
  session_headers :: "(string \<times> string) list"

text \<open>
  \<^verbatim>\<open>LinkwardenClient.__init__\<close>. It touches no network: the log comes back as it went in.
\<close>

definition init :: "string \<Rightarrow> string \<Rightarrow> wire \<Rightarrow> (py_exc + client) \<times> wire" where
  "init url api_token w =
     (if url = [] \<or> \<not> (prefix ''http://'' url \<or> prefix ''https://'' url) then
        (Inl (PyExc ValueError
           ''A valid base_url (starting with http:// or https://) is required.'' None None), w)
      else
        (Inr \<lparr>base_url = (if suffix ''/'' url then butlast url else url),
              session_headers =
                AList.update ''Content-type'' ''application/json''
                  (AList.update ''Accept'' ''application/json''
                    (AList.update ''Authorization'' (''Bearer '' @ api_token)
                       default_headers))\<rparr>, w))"

text \<open>What the request routine returns: the parsed body, or the raw bytes.\<close>

datatype result = Parsed json | Raw bytes

text \<open>The handler of the inner \<^verbatim>\<open>except requests.exceptions.JSONDecodeError\<close>.\<close>

definition not_json_failure :: "response \<Rightarrow> py_exc" where
  "not_json_failure r =
     PyExc LinkwardenAPIError
       (''Request failed with status '' @ str_int (status_code r) @
        '', and the response body was not valid JSON: '' @ resp_text r) None None"

definition json_decode_handler :: "response \<Rightarrow> py_exc + result" where
  "json_decode_handler r =
     (if ok r then Inr (Raw (content r)) else Inl (not_json_failure r))"

text \<open>The body of the outer \<^verbatim>\<open>try\<close>: the call, \<^verbatim>\<open>raise_for_status\<close>, the inner try.\<close>

definition try_body :: "transport \<Rightarrow> http_request \<Rightarrow> wire \<Rightarrow> (py_exc + result) \<times> wire" where
  "try_body tr rq w =
     (case session_request tr rq w of
        (Raises e, w') \<Rightarrow> (Inl e, w')
      | (Responds r, w') \<Rightarrow>
          (case raise_for_status r of
             Some e \<Rightarrow> (Inl e, w')
           | None \<Rightarrow>
               (case json_body r of
                  Some data \<Rightarrow> (Inr (Parsed data), w')
                | None \<Rightarrow> (json_decode_handler r, w'))))"

text \<open>
  The handler of \<^verbatim>\<open>except requests.exceptions.HTTPError as e\<close>: the exception it raises.
  Reading \<^verbatim>\<open>e.response.status_code\<close> of an HTTPError without a response is Python's
  AttributeError.
\<close>

definition http_error_handler :: "py_exc \<Rightarrow> py_exc" where
  "http_error_handler e =
     (case exc_response e of
        None \<Rightarrow> PyExc AttributeError
          (CHR 0x27 # ''NoneType'' @ CHR 0x27 # '' object has no attribute '' @
           CHR 0x27 # ''status_code'' @ [CHR 0x27]) None None
      | Some r \<Rightarrow>
          (let status = status_code r; error_text = resp_text r in
           if status = 401 \<or> status = 403 then
             PyExc LinkwardenAuthError
               (''Authentication error ('' @ str_int status @ ''): '' @ error_text) None (Some e)
           else if status = 404 then
             PyExc LinkwardenNotFoundError
               (''Resource not found ('' @ str_int status @ ''): '' @ error_text) None (Some e)
           else if 500 \<le> status \<and> status < 600 then
             PyExc LinkwardenServerError
               (''Server error ('' @ str_int status @ ''): '' @ error_text) None (Some e)
           else
             PyExc LinkwardenAPIError
               (''HTTP client error ('' @ str_int status @ ''): '' @ error_text) None (Some e)))"

text \<open>The handler of \<^verbatim>\<open>except requests.exceptions.RequestException as e\<close>.\<close>

definition request_exception_handler :: "py_exc \<Rightarrow> py_exc" where
  "request_exception_handler e =
     PyExc LinkwardenAPIError (''A network request failed: '' @ exc_msg e) None (Some e)"

text \<open>
  \<^verbatim>\<open>LinkwardenClient._request\<close> (an Isabelle name cannot start with an underscore).
  The two outer \<^verbatim>\<open>except\<close> clauses are tried in the source's order on whatever the
  \<^verbatim>\<open>try\<close> body raised; an exception neither clause matches propagates.
\<close>

definition request ::
  "transport \<Rightarrow> client \<Rightarrow> string \<Rightarrow> string \<Rightarrow> kwargs \<Rightarrow> wire \<Rightarrow> (py_exc + result) \<times> wire" where
  "request tr c method endpoint kw w =
     (let url = base_url c @ ''/'' @ endpoint;
          headers = session_headers c
      in case try_body tr
             \<lparr>req_method = method, req_url = url, req_headers = headers, req_kwargs = kw\<rparr> w of
           (Inr v, w') \<Rightarrow> (Inr v, w')
         | (Inl e, w') \<Rightarrow>
             (if isinstance e HTTPError then (Inl (http_error_handler e), w')
              else if isinstance e RequestException then
                (Inl (request_exception_handler e), w')
              else (Inl e, w')))"

subsection \<open>The public operations\<close>

definition get_collections :: "transport \<Rightarrow> client \<Rightarrow> wire \<Rightarrow> (py_exc + result) \<times> wire" where
  "get_collections tr c w = request tr c ''GET'' ''api/v1/collections'' no_kwargs w"

definition create_collection ::
  "transport \<Rightarrow> client \<Rightarrow> json \<Rightarrow> wire \<Rightarrow> (py_exc + result) \<times> wire" where
  "create_collection tr c payload w =
     request tr c ''POST'' ''api/v1/collections'' \<lparr>json_kw = Some payload, params_kw = None\<rparr> w"

definition get_collection_by_id ::
  "transport \<Rightarrow> client \<Rightarrow> int \<Rightarrow> wire \<Rightarrow> (py_exc + result) \<times> wire" where
  "get_collection_by_id tr c collection_id w =
     request tr c ''GET'' (''api/v1/collections/'' @ str_int collection_id) no_kwargs w"

definition update_collection ::
  "transport \<Rightarrow> client \<Rightarrow> int \<Rightarrow> json \<Rightarrow> wire \<Rightarrow> (py_exc + result) \<times> wire" where
  "update_collection tr c collection_id payload w =
     request tr c ''PUT'' (''api/v1/collections/'' @ str_int collection_id)
       \<lparr>json_kw = Some payload, params_kw = None\<rparr> w"

definition get_links :: "transport \<Rightarrow> client \<Rightarrow> wire \<Rightarrow> (py_exc + result) \<times> wire" where
  "get_links tr c w = request tr c ''GET'' ''api/v1/links'' no_kwargs w"

definition create_link ::
  "transport \<Rightarrow> client \<Rightarrow> json \<Rightarrow> wire \<Rightarrow> (py_exc + result) \<times> wire" where
  "create_link tr c payload w =
     request tr c ''POST'' ''api/v1/links'' \<lparr>json_kw = Some payload, params_kw = None\<rparr> w"

definition get_link_by_id ::
  "transport \<Rightarrow> client \<Rightarrow> int \<Rightarrow> wire \<Rightarrow> (py_exc + result) \<times> wire" where
  "get_link_by_id tr c link_id w =
     request tr c ''GET'' (''api/v1/links/'' @ str_int link_id) no_kwargs w"

definition update_link ::
  "transport \<Rightarrow> client \<Rightarrow> int \<Rightarrow> json \<Rightarrow> wire \<Rightarrow> (py_exc + result) \<times> wire" where
  "update_link tr c link_id payload w =
     request tr c ''PUT'' (''api/v1/links/'' @ str_int link_id)
       \<lparr>json_kw = Some payload, params_kw = None\<rparr> w"

definition get_tags :: "transport \<Rightarrow> client \<Rightarrow> wire \<Rightarrow> (py_exc + result) \<times> wire" where
  "get_tags tr c w = request tr c ''GET'' ''api/v1/tags'' no_kwargs w"

definition create_tag ::
  "transport \<Rightarrow> client \<Rightarrow> json \<Rightarrow> wire \<Rightarrow> (py_exc + result) \<times> wire" where
  "create_tag tr c payload w =
     request tr c ''POST'' ''api/v1/tags'' \<lparr>json_kw = Some payload, params_kw = None\<rparr> w"

definition get_current_user :: "transport \<Rightarrow> client \<Rightarrow> wire \<Rightarrow> (py_exc + result) \<times> wire" where
  "get_current_user tr c w = request tr c ''GET'' ''api/v1/users/me'' no_kwargs w"

definition search_query ::
  "transport \<Rightarrow> client \<Rightarrow> string \<Rightarrow> wire \<Rightarrow> (py_exc + result) \<times> wire" where
  "search_query tr c query w =
     request tr c ''GET'' ''api/v1/search''
       \<lparr>json_kw = None, params_kw = Some [(''searchQueryString'', query)]\<rparr> w"

subsection \<open>Vocabulary for the statements\<close>

text \<open>The request the routine hands to \<^verbatim>\<open>session.request\<close>.\<close>

abbreviation sent :: "client \<Rightarrow> string \<Rightarrow> string \<Rightarrow> kwargs \<Rightarrow> http_request" where
  "sent c method endpoint kw \<equiv>
     \<lparr>req_method = method, req_url = base_url c @ ''/'' @ endpoint,
      req_headers = session_headers c, req_kwargs = kw\<rparr>"

text \<open>Two networks for concrete runs: one that answers everything alike, one that is down.\<close>

definition always :: "response \<Rightarrow> transport" where
  "always r rq = Responds r"

definition failing :: "py_exc \<Rightarrow> transport" where
  "failing e rq = Raises e"

text \<open>A response with a given status, body and \<^verbatim>\<open>json()\<close> outcome, and a client.\<close>

definition reply :: "int \<Rightarrow> string \<Rightarrow> json option \<Rightarrow> response" where
  "reply s body j =
     \<lparr>status_code = s, reason = '''', resp_url = '''', content = body, resp_text = body,
      json_body = j\<rparr>"

definition demo_client :: client where
  "demo_client = \<lparr>base_url = ''https://links.example.org'', session_headers = []\<rparr>"

text \<open>
  What \<^verbatim>\<open>Session.request\<close> does in the library: it returns a response, or raises a
  RequestException; HTTPError is raised by \<^verbatim>\<open>raise_for_status\<close> only.
\<close>

definition transport_failure :: "py_exc \<Rightarrow> bool" where
  "transport_failure e = (isinstance e RequestException \<and> \<not> isinstance e HTTPError)"

definition library_transport :: "transport \<Rightarrow> bool" where
  "library_transport tr =
     (\<forall>rq. case tr rq of Responds r \<Rightarrow> True | Raises e \<Rightarrow> transport_failure e)"

text \<open>
  A failing request: the transport fails, or the answer has a status for which
  \<^verbatim>\<open>raise_for_status\<close> raises.
\<close>

definition request_fails :: "transport \<Rightarrow> http_request \<Rightarrow> bool" where
  "request_fails tr rq =
     (case tr rq of
        Raises e \<Rightarrow> transport_failure e
      | Responds r \<Rightarrow> 400 \<le> status_code r \<and> status_code r < 600)"

text \<open>
  The inner handler runs exactly when \<^verbatim>\<open>raise_for_status\<close> has returned and
  \<^verbatim>\<open>json()\<close> has raised.
\<close>

definition reaches_json_decode_handler :: "response \<Rightarrow> bool" where
  "reaches_json_decode_handler r = (raise_for_status r = None \<and> json_body r = None)"

section \<open>Properties\<close>

subsection \<open>Facts about the library and the request routine\<close>

lemma isinstance_HTTPError_raised:
  "isinstance (PyExc HTTPError m r c) HTTPError"
  by (simp add: isinstance_def issubclass.simps)

lemma raise_for_status_Some:
  "raise_for_status r = Some e \<Longrightarrow> exc_cls e = HTTPError \<and> exc_response e = Some r"
  by (auto simp: raise_for_status_def split: if_splits)

lemma raise_for_status_None_iff:
  "raise_for_status r = None \<longleftrightarrow> \<not> (400 \<le> status_code r \<and> status_code r < 600)"
  by (auto simp: raise_for_status_def)

lemma raised_is_HTTPError:
  "raise_for_status r = Some e \<Longrightarrow> isinstance e HTTPError"
  by (cases e) (auto dest: raise_for_status_Some simp: isinstance_HTTPError_raised)

lemma request_responds:
  assumes "tr (sent c m ep kw) = Responds r"
  shows "request tr c m ep kw w =
     ((case raise_for_status r of
         Some e \<Rightarrow> Inl (http_error_handler e)
       | None \<Rightarrow> (case json_body r of Some d \<Rightarrow> Inr (Parsed d) | None \<Rightarrow> json_decode_handler r)),
      w @ [sent c m ep kw])"
proof (cases "raise_for_status r")
  case None
  then have "ok r" by (simp add: ok_def)
  with None assms show ?thesis
    by (simp add: request_def try_body_def session_request_def json_decode_handler_def
        split: option.splits)
next
  case (Some e)
  with assms raised_is_HTTPError [OF Some] show ?thesis
    by (simp add: request_def try_body_def session_request_def)
qed

lemma request_raises:
  assumes "tr (sent c m ep kw) = Raises e" and "transport_failure e"
  shows "request tr c m ep kw w = (Inl (request_exception_handler e), w @ [sent c m ep kw])"
  using assms
  by (simp add: request_def try_body_def session_request_def transport_failure_def)

lemma suffix_single: "suffix [x] u \<longleftrightarrow> u \<noteq> [] \<and> last u = x"
  by (cases u rule: rev_cases) (auto simp: suffix_def)

lemma issubclass_Linkwarden:
  "issubclass LinkwardenAPIError LinkwardenAPIError"
  "issubclass LinkwardenAuthError LinkwardenAPIError"
  "issubclass LinkwardenNotFoundError LinkwardenAPIError"
  "issubclass LinkwardenServerError LinkwardenAPIError"
  "\<not> issubclass ValueError LinkwardenAPIError"
  by (simp_all add: issubclass.simps)

lemma http_error_handler_response:
  assumes "exc_response e = Some r"
  shows "http_error_handler e =
     PyExc (if status_code r = 401 \<or> status_code r = 403 then LinkwardenAuthError
            else if status_code r = 404 then LinkwardenNotFoundError
            else if 500 \<le> status_code r \<and> status_code r < 600 then LinkwardenServerError
            else LinkwardenAPIError)
       ((if status_code r = 401 \<or> status_code r = 403 then ''Authentication error (''
         else if status_code r = 404 then ''Resource not found (''
         else if 500 \<le> status_code r \<and> status_code r < 600 then ''Server error (''
         else ''HTTP client error ('') @ str_int (status_code r) @ ''): '' @ resp_text r)
       None (Some e)"
  using assms by (simp add: http_error_handler_def Let_def)

lemma request_http_error:
  assumes "tr (sent c m ep kw) = Responds r"
    and "400 \<le> status_code r" and "status_code r < 600"
  shows "\<exists>e. raise_for_status r = Some e \<and> exc_response e = Some r \<and>
           request tr c m ep kw w = (Inl (http_error_handler e), w @ [sent c m ep kw])"
proof -
  from assms(2,3) obtain e where e: "raise_for_status r = Some e"
    using raise_for_status_None_iff [of r] by (cases "raise_for_status r") auto
  then have "exc_response e = Some r"
    by (simp add: raise_for_status_Some)
  with e show ?thesis
    using request_responds [where tr = tr and c = c and m = m and ep = ep and kw = kw
        and r = r and w = w] assms(1)
    by simp
qed

lemma request_failure_class:
  assumes "library_transport tr" and "fst (request tr c m ep kw w) = Inl e"
  shows "isinstance e LinkwardenAPIError"
proof (cases "tr (sent c m ep kw)")
  case (Responds r)
  show ?thesis
  proof (cases "raise_for_status r")
    case None
    with Responds assms(2) show ?thesis
      using request_responds [where tr = tr and c = c and m = m and ep = ep and kw = kw
          and r = r and w = w]
      by (simp add: json_decode_handler_def ok_def split: option.splits)
  next
    case (Some e0)
    then have "exc_response e0 = Some r" by (simp add: raise_for_status_Some)
    then have "isinstance (http_error_handler e0) LinkwardenAPIError"
      by (simp add: http_error_handler_response isinstance_def issubclass_Linkwarden)
    with Some Responds assms(2) show ?thesis
      using request_responds [where tr = tr and c = c and m = m and ep = ep and kw = kw
          and r = r and w = w]
      by simp
  qed
next
  case (Raises e0)
  with assms(1) have "transport_failure e0"
    unfolding library_transport_def
    by (metis (mono_tags, lifting) outcome.simps(6))
  with Raises assms(2) show ?thesis
    using request_raises [where tr = tr and c = c and m = m and ep = ep and kw = kw
        and e = e0 and w = w]
    by (auto simp: request_exception_handler_def isinstance_def issubclass_Linkwarden)
qed

lemma request_fails_raises:
  assumes "request_fails tr (sent c m ep kw)"
  shows "\<exists>e. fst (request tr c m ep kw w) = Inl e \<and> isinstance e LinkwardenAPIError"
proof (cases "tr (sent c m ep kw)")
  case (Responds r)
  with assms have "400 \<le> status_code r" and "status_code r < 600"
    by (simp_all add: request_fails_def)
  with Responds obtain e0 where
    e0: "exc_response e0 = Some r"
    and run: "request tr c m ep kw w = (Inl (http_error_handler e0), w @ [sent c m ep kw])"
    using request_http_error [where tr = tr and c = c and m = m and ep = ep and kw = kw
      and r = r and w = w] by blast
  have "isinstance (http_error_handler e0) LinkwardenAPIError"
    by (simp add: http_error_handler_response [OF e0] isinstance_def issubclass_Linkwarden)
  with run show ?thesis by simp
next
  case (Raises e0)
  with assms have "transport_failure e0"
    by (simp add: request_fails_def)
  with Raises show ?thesis
    using request_raises [where tr = tr and c = c and m = m and ep = ep and kw = kw
        and e = e0 and w = w]
    by (simp add: request_exception_handler_def isinstance_def issubclass_Linkwarden)
qed

text \<open>The definitions a concrete run unfolds.\<close>

lemmas run_defs = request_def try_body_def session_request_def always_def failing_def reply_def
  raise_for_status_def isinstance_def issubclass.simps http_error_handler_def str_int_def
  digit_char_def demo_client_def json_decode_handler_def ok_def no_kwargs_def
  request_exception_handler_def not_json_failure_def Let_def

subsection \<open>Successful responses\<close>

text \<open>
  Claim C4. For every response with a 2xx status whose body is valid JSON, the request
  routine returns the parsed JSON value unchanged: what \<^verbatim>\<open>response.json()\<close> produced
  is what the caller gets, with no field added, dropped or rewritten, and exactly one
  request has gone out.
\<close>

theorem request_success_json:
  assumes "tr (sent c m ep kw) = Responds r"
    and "200 \<le> status_code r" and "status_code r < 300"
    and "json_body r = Some v"
  shows "request tr c m ep kw w = (Inr (Parsed v), w @ [sent c m ep kw])"
proof -
  from assms(2,3) have "raise_for_status r = None"
    by (simp add: raise_for_status_None_iff)
  with assms(4) show ?thesis
    using request_responds [where tr = tr and c = c and m = m and ep = ep and kw = kw and r = r and w = w] assms(1) by simp
qed

theorem request_success_json_witness:
  "request (always (reply 200 ''[1, 2]'' (Some (JArray [JInt 1, JInt 2])))) demo_client
     ''GET'' ''api/v1/tags'' no_kwargs []
   = (Inr (Parsed (JArray [JInt 1, JInt 2])), [sent demo_client ''GET'' ''api/v1/tags'' no_kwargs])"
  using request_success_json [where tr = "always (reply 200 ''[1, 2]'' (Some (JArray [JInt 1, JInt 2])))"
      and c = demo_client and m = "''GET''" and ep = "''api/v1/tags''" and kw = no_kwargs
      and r = "reply 200 ''[1, 2]'' (Some (JArray [JInt 1, JInt 2]))"
      and v = "JArray [JInt 1, JInt 2]" and w = "[]"]
  by (simp add: always_def reply_def)

text \<open>
  Claim C5. For every response with a 2xx status whose body is not valid JSON, the request
  routine returns the raw bytes of the response unchanged and raises nothing.
\<close>

theorem request_success_raw:
  assumes "tr (sent c m ep kw) = Responds r"
    and "200 \<le> status_code r" and "status_code r < 300"
    and "json_body r = None"
  shows "request tr c m ep kw w = (Inr (Raw (content r)), w @ [sent c m ep kw])"
proof -
  from assms(2,3) have "raise_for_status r = None"
    by (simp add: raise_for_status_None_iff)
  with assms(4) show ?thesis
    using request_responds [where tr = tr and c = c and m = m and ep = ep and kw = kw and r = r and w = w] assms(1)
    by (simp add: json_decode_handler_def ok_def)
qed

theorem request_success_raw_witness:
  "request (always (reply 200 ''%PDF-1.7'' None)) demo_client
     ''GET'' ''api/v1/archives/3'' no_kwargs []
   = (Inr (Raw ''%PDF-1.7''), [sent demo_client ''GET'' ''api/v1/archives/3'' no_kwargs])"
  using request_success_raw [where tr = "always (reply 200 ''%PDF-1.7'' None)"
      and c = demo_client and m = "''GET''" and ep = "''api/v1/archives/3''" and kw = no_kwargs
      and r = "reply 200 ''%PDF-1.7'' None" and w = "[]"]
  by (simp add: always_def reply_def)

subsection \<open>The constructor\<close>

text \<open>
  Claim C6. For every base URL that starts neither with \<^verbatim>\<open>http://\<close> nor with
  \<^verbatim>\<open>https://\<close> (the empty string included) and for every token, the constructor fails with
  the ValueError, and the log of network calls is what it was: no call is attempted.
\<close>

theorem init_rejects_bad_url:
  assumes "\<not> prefix ''http://'' url" and "\<not> prefix ''https://'' url"
  shows "init url api_token w =
     (Inl (PyExc ValueError
        ''A valid base_url (starting with http:// or https://) is required.'' None None), w)"
  using assms by (simp add: init_def)

theorem init_rejects_bad_url_witness:
  "init '''' ''secret'' [] =
     (Inl (PyExc ValueError
        ''A valid base_url (starting with http:// or https://) is required.'' None None), [])
   \<and> init ''ftp://links.example.org'' '''' [] =
     (Inl (PyExc ValueError
        ''A valid base_url (starting with http:// or https://) is required.'' None None), [])"
  using init_rejects_bad_url [of "''''" "''secret''" "[]"]
    init_rejects_bad_url [of "''ftp://links.example.org''" "''''" "[]"]
  by simp

text \<open>
  Claim C7. For every base URL that starts with \<^verbatim>\<open>http://\<close> or \<^verbatim>\<open>https://\<close>, the
  constructor succeeds; when the URL ends with a slash the stored base URL is the URL with
  exactly one trailing slash removed, and otherwise it is the URL unchanged.
\<close>

theorem init_strips_one_slash:
  assumes "prefix ''http://'' url \<or> prefix ''https://'' url"
  shows "\<exists>c. init url api_token w = (Inr c, w) \<and>
           (if suffix ''/'' url then base_url c @ ''/'' = url else base_url c = url)"
proof -
  from assms have ne: "url \<noteq> []" by auto
  have "butlast url @ ''/'' = url" if "last url = CHR ''/''"
    using append_butlast_last_id [OF ne] that by simp
  with assms ne show ?thesis
    by (auto simp: init_def suffix_single)
qed

theorem init_strips_one_slash_witness:
  "(\<exists>c. init ''https://links.example.org//'' ''secret'' [] = (Inr c, []) \<and>
        base_url c = ''https://links.example.org/'')
   \<and> (\<exists>c. init ''http://localhost:3000'' ''secret'' [] = (Inr c, []) \<and>
        base_url c = ''http://localhost:3000'')"
  using init_strips_one_slash [of "''https://links.example.org//''" "''secret''" "[]"]
    init_strips_one_slash [of "''http://localhost:3000''" "''secret''" "[]"]
  by (simp add: suffix_single)

subsection \<open>HTTP failures\<close>

text \<open>
  Claim C1, as amended. For every request that receives a response with a status in
  [400, 600), the request routine raises: LinkwardenAuthError for 401 and 403,
  LinkwardenNotFoundError for 404, LinkwardenServerError for [500, 600), and the base
  LinkwardenAPIError for every other 4xx status; the message is the label of that case, the
  status code in decimal and the raw response text, so both are embedded in it.
\<close>

theorem request_classifies_http_errors:
  assumes "tr (sent c m ep kw) = Responds r"
    and "400 \<le> status_code r" and "status_code r < 600"
  shows "\<exists>e. fst (request tr c m ep kw w) = Inl e \<and>
     exc_cls e =
       (if status_code r = 401 \<or> status_code r = 403 then LinkwardenAuthError
        else if status_code r = 404 then LinkwardenNotFoundError
        else if 500 \<le> status_code r then LinkwardenServerError
        else LinkwardenAPIError) \<and>
     exc_msg e =
       (if status_code r = 401 \<or> status_code r = 403 then ''Authentication error (''
        else if status_code r = 404 then ''Resource not found (''
        else if 500 \<le> status_code r then ''Server error (''
        else ''HTTP client error ('') @ str_int (status_code r) @ ''): '' @ resp_text r \<and>
     sublist (str_int (status_code r)) (exc_msg e) \<and>
     sublist (resp_text r) (exc_msg e)"
proof -
  from request_http_error [where tr = tr and c = c and m = m and ep = ep and kw = kw
      and r = r and w = w] assms obtain e0 where
    e0: "exc_response e0 = Some r"
    and run: "request tr c m ep kw w = (Inl (http_error_handler e0), w @ [sent c m ep kw])"
    by blast
  let ?e = "http_error_handler e0"
  have msg: "exc_msg ?e =
       (if status_code r = 401 \<or> status_code r = 403 then ''Authentication error (''
        else if status_code r = 404 then ''Resource not found (''
        else if 500 \<le> status_code r then ''Server error (''
        else ''HTTP client error ('') @ str_int (status_code r) @ ''): '' @ resp_text r"
    using assms(3) by (simp add: http_error_handler_response [OF e0])
  have cls: "exc_cls ?e =
       (if status_code r = 401 \<or> status_code r = 403 then LinkwardenAuthError
        else if status_code r = 404 then LinkwardenNotFoundError
        else if 500 \<le> status_code r then LinkwardenServerError
        else LinkwardenAPIError)"
    using assms(3) by (simp add: http_error_handler_response [OF e0])
  have s1: "sublist (str_int (status_code r)) (exc_msg ?e)"
    unfolding msg by (rule sublist_appendI)
  have s2: "sublist (resp_text r) (exc_msg ?e)"
    unfolding msg sublist_def by (metis append.assoc append_Nil2)
  from run msg cls s1 s2 show ?thesis by simp
qed

theorem request_classifies_http_errors_witness:
  "(\<exists>e. fst (request (always (reply 403 ''forbidden'' None)) demo_client
            ''GET'' ''api/v1/users/me'' no_kwargs []) = Inl e \<and>
      exc_cls e = LinkwardenAuthError \<and>
      exc_msg e = ''Authentication error (403): forbidden'')
   \<and> (\<exists>e. fst (request (always (reply 418 ''teapot'' None)) demo_client
            ''GET'' ''api/v1/users/me'' no_kwargs []) = Inl e \<and>
      exc_cls e = LinkwardenAPIError \<and>
      exc_msg e = ''HTTP client error (418): teapot'')"
  using request_classifies_http_errors [where tr = "always (reply 403 ''forbidden'' None)"
      and c = demo_client and m = "''GET''" and ep = "''api/v1/users/me''" and kw = no_kwargs
      and r = "reply 403 ''forbidden'' None" and w = "[]"]
    request_classifies_http_errors [where tr = "always (reply 418 ''teapot'' None)"
      and c = demo_client and m = "''GET''" and ep = "''api/v1/users/me''" and kw = no_kwargs
      and r = "reply 418 ''teapot'' None" and w = "[]"]
  by (auto simp: always_def reply_def str_int_def digit_char_def)

text \<open>
  Claim C1 as stated covers every other status from 400 on. The library's
  \<^verbatim>\<open>raise_for_status\<close> raises nothing above 599, so a response with status 600 and a JSON
  body is returned as a success.
\<close>

theorem request_status_600_counterexample:
  "400 \<le> status_code (reply 600 ''{}'' (Some (JObject []))) \<and>
   fst (request (always (reply 600 ''{}'' (Some (JObject [])))) demo_client
          ''GET'' ''api/v1/tags'' no_kwargs []) = Inr (Parsed (JObject []))"
  by (simp add: run_defs)

text \<open>
  Claim C3, as amended. For every response with a status in [400, 600) whose body is not
  valid JSON, the request routine raises the error its status selects, exactly as for a
  body that is JSON: LinkwardenAuthError for 401 and 403, LinkwardenNotFoundError for 404,
  LinkwardenServerError for [500, 600), and the base LinkwardenAPIError for every other
  4xx status, so the base class exactly when the status is a 4xx other than 401, 403 and
  404. The message carries the status code and the response text. The body is never
  parsed on this path, so no JSON decoding failure surfaces, and the error is not the one
  of the inner handler.
\<close>

theorem request_error_not_json:
  assumes "tr (sent c m ep kw) = Responds r"
    and "400 \<le> status_code r" and "status_code r < 600"
    and "json_body r = None"
  shows "\<exists>e. fst (request tr c m ep kw w) = Inl e \<and>
     exc_cls e =
       (if status_code r = 401 \<or> status_code r = 403 then LinkwardenAuthError
        else if status_code r = 404 then LinkwardenNotFoundError
        else if 500 \<le> status_code r then LinkwardenServerError
        else LinkwardenAPIError) \<and>
     exc_msg e =
       (if status_code r = 401 \<or> status_code r = 403 then ''Authentication error (''
        else if status_code r = 404 then ''Resource not found (''
        else if 500 \<le> status_code r then ''Server error (''
        else ''HTTP client error ('') @ str_int (status_code r) @ ''): '' @ resp_text r \<and>
     isinstance e LinkwardenAPIError \<and>
     (exc_cls e = LinkwardenAPIError) =
       (status_code r < 500 \<and> status_code r \<noteq> 401 \<and> status_code r \<noteq> 403 \<and>
        status_code r \<noteq> 404) \<and>
     e \<noteq> not_json_failure r"
proof -
  from request_http_error [where tr = tr and c = c and m = m and ep = ep and kw = kw
      and r = r and w = w] assms(1-3) obtain e0 where
    e0: "exc_response e0 = Some r"
    and run: "request tr c m ep kw w = (Inl (http_error_handler e0), w @ [sent c m ep kw])"
    by blast
  let ?e = "http_error_handler e0"
  have cls: "exc_cls ?e =
       (if status_code r = 401 \<or> status_code r = 403 then LinkwardenAuthError
        else if status_code r = 404 then LinkwardenNotFoundError
        else if 500 \<le> status_code r then LinkwardenServerError
        else LinkwardenAPIError)"
    using assms(3) by (simp add: http_error_handler_response [OF e0])
  have msg: "exc_msg ?e =
       (if status_code r = 401 \<or> status_code r = 403 then ''Authentication error (''
        else if status_code r = 404 then ''Resource not found (''
        else if 500 \<le> status_code r then ''Server error (''
        else ''HTTP client error ('') @ str_int (status_code r) @ ''): '' @ resp_text r"
    using assms(3) by (simp add: http_error_handler_response [OF e0])
  have inst: "isinstance ?e LinkwardenAPIError"
    by (simp add: http_error_handler_response [OF e0] isinstance_def issubclass_Linkwarden)
  have base_iff: "(exc_cls ?e = LinkwardenAPIError) =
       (status_code r < 500 \<and> status_code r \<noteq> 401 \<and> status_code r \<noteq> 403 \<and>
        status_code r \<noteq> 404)"
    using assms(2,3) by (auto simp: http_error_handler_response [OF e0])
  have other: "?e \<noteq> not_json_failure r"
    by (simp add: http_error_handler_response [OF e0] not_json_failure_def)
  from run cls msg inst base_iff other show ?thesis by simp
qed

theorem request_error_not_json_witness:
  "(\<exists>e. fst (request (always (reply 400 ''<html>bad request</html>'' None)) demo_client
            ''GET'' ''api/v1/links'' no_kwargs []) = Inl e \<and>
      exc_cls e = LinkwardenAPIError \<and>
      exc_msg e = ''HTTP client error (400): <html>bad request</html>'' \<and>
      isinstance e LinkwardenAPIError)
   \<and> (\<exists>e. fst (request (always (reply 404 ''<html>gone</html>'' None)) demo_client
            ''GET'' ''api/v1/links/999'' no_kwargs []) = Inl e \<and>
      exc_cls e = LinkwardenNotFoundError \<and>
      exc_msg e = ''Resource not found (404): <html>gone</html>'' \<and>
      isinstance e LinkwardenAPIError)
   \<and> (\<exists>e. fst (request (always (reply 502 ''Bad Gateway'' None)) demo_client
            ''GET'' ''api/v1/links'' no_kwargs []) = Inl e \<and>
      exc_cls e = LinkwardenServerError \<and>
      exc_msg e = ''Server error (502): Bad Gateway'' \<and>
      isinstance e LinkwardenAPIError)"
  using request_error_not_json [where tr = "always (reply 400 ''<html>bad request</html>'' None)"
      and c = demo_client and m = "''GET''" and ep = "''api/v1/links''" and kw = no_kwargs
      and r = "reply 400 ''<html>bad request</html>'' None" and w = "[]"]
    request_error_not_json [where tr = "always (reply 404 ''<html>gone</html>'' None)"
      and c = demo_client and m = "''GET''" and ep = "''api/v1/links/999''" and kw = no_kwargs
      and r = "reply 404 ''<html>gone</html>'' None" and w = "[]"]
    request_error_not_json [where tr = "always (reply 502 ''Bad Gateway'' None)"
      and c = demo_client and m = "''GET''" and ep = "''api/v1/links''" and kw = no_kwargs
      and r = "reply 502 ''Bad Gateway'' None" and w = "[]"]
  by (auto simp: always_def reply_def str_int_def digit_char_def)

text \<open>
  Claim C3 as stated asks for the base class on every status from 400 on. A 404 with an
  HTML body raises LinkwardenNotFoundError, a specialization; and a response with status
  600 whose body is not JSON raises nothing at all: its raw bytes are returned.
\<close>

theorem request_not_json_failure_counterexample:
  "400 \<le> status_code (reply 404 ''<html>gone</html>'' None) \<and>
   json_body (reply 404 ''<html>gone</html>'' None) = None \<and>
   fst (request (always (reply 404 ''<html>gone</html>'' None)) demo_client
          ''GET'' ''api/v1/links/999'' no_kwargs []) =
     Inl (PyExc LinkwardenNotFoundError ''Resource not found (404): <html>gone</html>'' None
       (Some (PyExc HTTPError ''404 Client Error:  for url: ''
          (Some (reply 404 ''<html>gone</html>'' None)) None))) \<and>
   400 \<le> status_code (reply 600 ''busy'' None) \<and>
   json_body (reply 600 ''busy'' None) = None \<and>
   fst (request (always (reply 600 ''busy'' None)) demo_client
          ''GET'' ''api/v1/links/999'' no_kwargs []) = Inr (Raw ''busy'')"
  by (simp add: run_defs)

text \<open>
  Claim C9, as amended. The arm of the JSON-decode handler that raises the base API error
  is unreachable: JSON parsing is attempted only after \<^verbatim>\<open>raise_for_status\<close> has returned,
  so every response reaching the handler has a status outside [400, 600), for which
  \<^verbatim>\<open>response.ok\<close> is true; the handler returns the raw bytes, and no answered request ever
  raises that arm's error.
\<close>

theorem json_failure_arm_unreachable:
  assumes "tr (sent c m ep kw) = Responds r"
  shows "fst (request tr c m ep kw w) \<noteq> Inl (not_json_failure r) \<and>
     (reaches_json_decode_handler r \<longrightarrow>
        \<not> (400 \<le> status_code r \<and> status_code r < 600) \<and> ok r \<and>
        json_decode_handler r = Inr (Raw (content r)))"
proof
  show "fst (request tr c m ep kw w) \<noteq> Inl (not_json_failure r)"
  proof (cases "raise_for_status r")
    case None
    then show ?thesis
      using request_responds [where tr = tr and c = c and m = m and ep = ep and kw = kw
          and r = r and w = w] assms
      by (simp add: json_decode_handler_def ok_def split: option.splits)
  next
    case (Some e)
    then have "exc_response e = Some r" by (simp add: raise_for_status_Some)
    then have "http_error_handler e \<noteq> not_json_failure r"
      by (simp add: http_error_handler_response not_json_failure_def)
    with Some show ?thesis
      using request_responds [where tr = tr and c = c and m = m and ep = ep and kw = kw
          and r = r and w = w] assms
      by simp
  qed
next
  show "reaches_json_decode_handler r \<longrightarrow>
        \<not> (400 \<le> status_code r \<and> status_code r < 600) \<and> ok r \<and>
        json_decode_handler r = Inr (Raw (content r))"
    by (simp add: reaches_json_decode_handler_def json_decode_handler_def ok_def
        raise_for_status_None_iff)
qed

theorem json_failure_arm_unreachable_witness:
  "reaches_json_decode_handler (reply 204 [] None) \<and>
   fst (request (always (reply 204 [] None)) demo_client ''GET'' ''api/v1/tags'' no_kwargs [])
     \<noteq> Inl (not_json_failure (reply 204 [] None)) \<and>
   ok (reply 204 [] None) \<and>
   json_decode_handler (reply 204 [] None) = Inr (Raw [])"
  using json_failure_arm_unreachable [where tr = "always (reply 204 [] None)"
      and c = demo_client and m = "''GET''" and ep = "''api/v1/tags''" and kw = no_kwargs
      and r = "reply 204 [] None" and w = "[]"]
  by (simp add: always_def reply_def reaches_json_decode_handler_def raise_for_status_def)

text \<open>
  Claim C9 as stated says every response reaching the handler has a status below 400: a
  response with status 600 and a body that is not JSON reaches it.
\<close>

theorem handler_reached_with_status_600_counterexample:
  "reaches_json_decode_handler (reply 600 ''busy'' None) \<and>
   \<not> status_code (reply 600 ''busy'' None) < 400 \<and>
   try_body (always (reply 600 ''busy'' None)) (sent demo_client ''GET'' ''api/v1/tags'' no_kwargs) []
     = (json_decode_handler (reply 600 ''busy'' None),
        [sent demo_client ''GET'' ''api/v1/tags'' no_kwargs])"
  by (simp add: reaches_json_decode_handler_def try_body_def session_request_def always_def
      reply_def raise_for_status_def)

subsection \<open>The created collection\<close>

text \<open>
  Claim C2. \<^verbatim>\<open>create_collection({"name": "Reading List"})\<close> against a server answering
  201 with the body \<^verbatim>\<open>{"response": {"id": 1, "name": "Reading List"}}\<close> should return the
  collection itself, with id 1 and that name. Run on the code, the call returns the whole
  parsed body: the wrapper object, whose only key is \<^verbatim>\<open>response\<close>, so that looking up
  \<^verbatim>\<open>id\<close> or \<^verbatim>\<open>name\<close> in the returned value finds nothing. The docstring of the request
  routine promises the value under the \<^verbatim>\<open>response\<close> key; the routine returns \<^verbatim>\<open>data\<close>.
\<close>

theorem create_collection_returns_wrapper:
  \<open>fst (create_collection
      (always (reply 201 ''{"response": {"id": 1, "name": "Reading List"}}''
         (Some (JObject [(''response'',
            JObject [(''id'', JInt 1), (''name'', JString ''Reading List'')])]))))
      demo_client (JObject [(''name'', JString ''Reading List'')]) [])
   = Inr (Parsed (JObject [(''response'',
            JObject [(''id'', JInt 1), (''name'', JString ''Reading List'')])]))
   \<and> json_get (JObject [(''response'',
            JObject [(''id'', JInt 1), (''name'', JString ''Reading List'')])]) ''id'' = None
   \<and> json_get (JObject [(''response'',
            JObject [(''id'', JInt 1), (''name'', JString ''Reading List'')])]) ''name'' = None\<close>
  by (simp add: run_defs create_collection_def)

subsection \<open>Transport failures and the exception hierarchy\<close>

text \<open>
  Claim C8. For every public operation, when the call it issues fails in the transport with
  no response (the library raises a RequestException that is not an HTTPError: connection
  refused, DNS failure, timeout), the operation raises the base LinkwardenAPIError whose
  message embeds the transport exception's text and whose cause is that exception, and
  exactly one request has been handed to the session: there is no retry. The table pairs
  each operation with the request it issues.
\<close>

theorem transport_failure_raises_api_error:
  assumes "transport_failure e" and "tr rq = Raises e"
    and "(rq, x) \<in>
      {(sent c ''GET'' ''api/v1/collections'' no_kwargs, get_collections tr c w),
       (sent c ''POST'' ''api/v1/collections'' \<lparr>json_kw = Some cpl, params_kw = None\<rparr>,
          create_collection tr c cpl w),
       (sent c ''GET'' (''api/v1/collections/'' @ str_int cid) no_kwargs,
          get_collection_by_id tr c cid w),
       (sent c ''PUT'' (''api/v1/collections/'' @ str_int ucid)
            \<lparr>json_kw = Some ucpl, params_kw = None\<rparr>,
          update_collection tr c ucid ucpl w),
       (sent c ''GET'' ''api/v1/links'' no_kwargs, get_links tr c w),
       (sent c ''POST'' ''api/v1/links'' \<lparr>json_kw = Some lpl, params_kw = None\<rparr>,
          create_link tr c lpl w),
       (sent c ''GET'' (''api/v1/links/'' @ str_int lid) no_kwargs, get_link_by_id tr c lid w),
       (sent c ''PUT'' (''api/v1/links/'' @ str_int ulid) \<lparr>json_kw = Some ulpl, params_kw = None\<rparr>,
          update_link tr c ulid ulpl w),
       (sent c ''GET'' ''api/v1/tags'' no_kwargs, get_tags tr c w),
       (sent c ''POST'' ''api/v1/tags'' \<lparr>json_kw = Some tpl, params_kw = None\<rparr>,
          create_tag tr c tpl w),
       (sent c ''GET'' ''api/v1/users/me'' no_kwargs, get_current_user tr c w),
       (sent c ''GET'' ''api/v1/search''
            \<lparr>json_kw = None, params_kw = Some [(''searchQueryString'', q)]\<rparr>,
          search_query tr c q w)}"
  shows "x = (Inl (PyExc LinkwardenAPIError (''A network request failed: '' @ exc_msg e)
                 None (Some e)), w @ [rq])"
proof -
  have R: "request tr c m ep kw w =
      (Inl (PyExc LinkwardenAPIError (''A network request failed: '' @ exc_msg e)
                 None (Some e)), w @ [rq])" if "rq = sent c m ep kw" for m ep kw
    using request_raises [where tr = tr and c = c and m = m and ep = ep and kw = kw
        and e = e and w = w] assms(1,2) that
    by (simp add: request_exception_handler_def)
  from assms(3) show ?thesis
    unfolding get_collections_def create_collection_def get_collection_by_id_def
      update_collection_def get_links_def create_link_def get_link_by_id_def update_link_def
      get_tags_def create_tag_def get_current_user_def search_query_def
    by (elim insertE emptyE) (simp_all add: R)
qed

theorem transport_failure_raises_api_error_witness:
  "transport_failure (PyExc ConnectionError ''Connection refused'' None None) \<and>
   get_link_by_id (failing (PyExc ConnectionError ''Connection refused'' None None))
       demo_client 7 [] =
     (Inl (PyExc LinkwardenAPIError ''A network request failed: Connection refused'' None
        (Some (PyExc ConnectionError ''Connection refused'' None None))),
      [sent demo_client ''GET'' ''api/v1/links/7'' no_kwargs])"
  using transport_failure_raises_api_error
    [where e = "PyExc ConnectionError ''Connection refused'' None None"
      and tr = "failing (PyExc ConnectionError ''Connection refused'' None None)"
      and rq = "sent demo_client ''GET'' (''api/v1/links/'' @ str_int 7) no_kwargs"
      and x = "get_link_by_id (failing (PyExc ConnectionError ''Connection refused'' None None))
                 demo_client 7 []"
      and c = demo_client and w = "[]"
      and cid = 0 and ucid = 0 and lid = 7 and ulid = 0
      and cpl = JNull and ucpl = JNull and lpl = JNull and ulpl = JNull and tpl = JNull and q = "[]"]
  by (simp add: failing_def transport_failure_def isinstance_def issubclass.simps
      str_int_def digit_char_def)

text \<open>
  Claim C10. For the request routine and for each of the twelve public operations, paired
  in the table with the request it issues: when that request fails (the transport raises a
  RequestException, or the answer has a status in [400, 600)), the call does raise, and
  what it raises is an instance of LinkwardenAPIError, so a caller catching
  LinkwardenAPIError catches the failure; over the library's transport, whatever a call
  raises at all is an instance of LinkwardenAPIError; and the constructor's ValueError is
  outside the hierarchy.
\<close>

theorem failures_are_LinkwardenAPIError:
  assumes "(rq, x) \<in>
      {(sent c m ep kw, request tr c m ep kw w),
       (sent c ''GET'' ''api/v1/collections'' no_kwargs, get_collections tr c w),
       (sent c ''POST'' ''api/v1/collections'' \<lparr>json_kw = Some cpl, params_kw = None\<rparr>,
          create_collection tr c cpl w),
       (sent c ''GET'' (''api/v1/collections/'' @ str_int cid) no_kwargs,
          get_collection_by_id tr c cid w),
       (sent c ''PUT'' (''api/v1/collections/'' @ str_int ucid)
            \<lparr>json_kw = Some ucpl, params_kw = None\<rparr>,
          update_collection tr c ucid ucpl w),
       (sent c ''GET'' ''api/v1/links'' no_kwargs, get_links tr c w),
       (sent c ''POST'' ''api/v1/links'' \<lparr>json_kw = Some lpl, params_kw = None\<rparr>,
          create_link tr c lpl w),
       (sent c ''GET'' (''api/v1/links/'' @ str_int lid) no_kwargs, get_link_by_id tr c lid w),
       (sent c ''PUT'' (''api/v1/links/'' @ str_int ulid)
            \<lparr>json_kw = Some ulpl, params_kw = None\<rparr>,
          update_link tr c ulid ulpl w),
       (sent c ''GET'' ''api/v1/tags'' no_kwargs, get_tags tr c w),
       (sent c ''POST'' ''api/v1/tags'' \<lparr>json_kw = Some tpl, params_kw = None\<rparr>,
          create_tag tr c tpl w),
       (sent c ''GET'' ''api/v1/users/me'' no_kwargs, get_current_user tr c w),
       (sent c ''GET'' ''api/v1/search''
            \<lparr>json_kw = None, params_kw = Some [(''searchQueryString'', q)]\<rparr>,
          search_query tr c q w)}"
  shows "(request_fails tr rq \<longrightarrow>
            (\<exists>e. fst x = Inl e \<and> isinstance e LinkwardenAPIError)) \<and>
         (library_transport tr \<longrightarrow>
            (\<forall>e. fst x = Inl e \<longrightarrow> isinstance e LinkwardenAPIError)) \<and>
         (\<forall>url api_token w0 e0. fst (init url api_token w0) = Inl e0 \<longrightarrow>
            \<not> isinstance e0 LinkwardenAPIError)"
proof (intro conjI)
  have A: "request_fails tr (sent c m' ep' kw') \<longrightarrow>
      (\<exists>e. fst (request tr c m' ep' kw' w) = Inl e \<and> isinstance e LinkwardenAPIError)"
    for m' ep' kw'
    using request_fails_raises [where tr = tr and c = c and m = m' and ep = ep' and kw = kw'
        and w = w] by blast
  from assms show "request_fails tr rq \<longrightarrow>
      (\<exists>e. fst x = Inl e \<and> isinstance e LinkwardenAPIError)"
    unfolding get_collections_def create_collection_def get_collection_by_id_def
      update_collection_def get_links_def create_link_def get_link_by_id_def update_link_def
      get_tags_def create_tag_def get_current_user_def search_query_def
    by (elim insertE emptyE) (simp_all add: A)
next
  have B: "library_transport tr \<longrightarrow>
      (\<forall>e. fst (request tr c m' ep' kw' w) = Inl e \<longrightarrow> isinstance e LinkwardenAPIError)"
    for m' ep' kw'
    using request_failure_class [where tr = tr and c = c and m = m' and ep = ep' and kw = kw'
        and w = w] by blast
  from assms show "library_transport tr \<longrightarrow>
      (\<forall>e. fst x = Inl e \<longrightarrow> isinstance e LinkwardenAPIError)"
    unfolding get_collections_def create_collection_def get_collection_by_id_def
      update_collection_def get_links_def create_link_def get_link_by_id_def update_link_def
      get_tags_def create_tag_def get_current_user_def search_query_def
    by (elim insertE emptyE) (simp_all add: B)
next
  show "\<forall>url api_token w0 e0. fst (init url api_token w0) = Inl e0 \<longrightarrow>
        \<not> isinstance e0 LinkwardenAPIError"
    by (auto simp: init_def isinstance_def issubclass_Linkwarden split: if_splits)
qed

theorem failures_are_LinkwardenAPIError_witness:
  "request_fails (always (reply 503 ''down'' None))
     (sent demo_client ''GET'' ''api/v1/tags'' no_kwargs) \<and>
   library_transport (always (reply 503 ''down'' None)) \<and>
   fst (get_tags (always (reply 503 ''down'' None)) demo_client []) =
     Inl (PyExc LinkwardenServerError ''Server error (503): down'' None
       (Some (PyExc HTTPError ''503 Server Error:  for url: ''
          (Some (reply 503 ''down'' None)) None))) \<and>
   isinstance (PyExc LinkwardenServerError ''Server error (503): down'' None
       (Some (PyExc HTTPError ''503 Server Error:  for url: ''
          (Some (reply 503 ''down'' None)) None))) LinkwardenAPIError \<and>
   request_fails (failing (PyExc Timeout ''Read timed out'' None None))
     (sent demo_client ''GET'' ''api/v1/search''
        \<lparr>json_kw = None, params_kw = Some [(''searchQueryString'', ''tag:work'')]\<rparr>) \<and>
   library_transport (failing (PyExc Timeout ''Read timed out'' None None)) \<and>
   fst (search_query (failing (PyExc Timeout ''Read timed out'' None None))
          demo_client ''tag:work'' []) =
     Inl (PyExc LinkwardenAPIError ''A network request failed: Read timed out'' None
       (Some (PyExc Timeout ''Read timed out'' None None))) \<and>
   isinstance (PyExc LinkwardenAPIError ''A network request failed: Read timed out'' None
       (Some (PyExc Timeout ''Read timed out'' None None))) LinkwardenAPIError \<and>
   fst (init ''links.example.org'' ''secret'' []) =
     Inl (PyExc ValueError
        ''A valid base_url (starting with http:// or https://) is required.'' None None) \<and>
   \<not> isinstance (PyExc ValueError
        ''A valid base_url (starting with http:// or https://) is required.'' None None)
      LinkwardenAPIError"
proof -
  let ?tr = "always (reply 503 ''down'' None)"
  let ?rq = "sent demo_client ''GET'' ''api/v1/tags'' no_kwargs"
  let ?e = "PyExc LinkwardenServerError ''Server error (503): down'' None
       (Some (PyExc HTTPError ''503 Server Error:  for url: ''
          (Some (reply 503 ''down'' None)) None))"
  let ?t = "PyExc Timeout ''Read timed out'' None None"
  let ?tr2 = "failing ?t"
  let ?kw2 = "\<lparr>json_kw = None, params_kw = Some [(''searchQueryString'', ''tag:work'')]\<rparr>"
  let ?rq2 = "sent demo_client ''GET'' ''api/v1/search'' ?kw2"
  let ?e2 = "PyExc LinkwardenAPIError ''A network request failed: Read timed out'' None
       (Some ?t)"
  let ?v = "PyExc ValueError
        ''A valid base_url (starting with http:// or https://) is required.'' None None"
  have tf: "transport_failure ?t"
    by (simp add: transport_failure_def isinstance_def issubclass.simps)
  have fails: "request_fails ?tr ?rq"
    by (simp add: request_fails_def always_def reply_def)
  have lib: "library_transport ?tr"
    by (simp add: library_transport_def always_def)
  have run: "fst (get_tags ?tr demo_client []) = Inl ?e"
    by (simp add: get_tags_def run_defs)
  have fails2: "request_fails ?tr2 ?rq2"
    using tf by (simp add: request_fails_def failing_def)
  have lib2: "library_transport ?tr2"
    using tf by (simp add: library_transport_def failing_def)
  have run2: "fst (search_query ?tr2 demo_client ''tag:work'' []) = Inl ?e2"
    by (simp add: search_query_def run_defs)
  have bad: "fst (init ''links.example.org'' ''secret'' []) = Inl ?v"
    by (simp add: init_def)
  note thm1 = failures_are_LinkwardenAPIError [where rq = ?rq
      and x = "get_tags ?tr demo_client []" and tr = ?tr and c = demo_client and w = "[]"
      and m = "[]" and ep = "[]" and kw = no_kwargs
      and cid = 0 and ucid = 0 and lid = 0 and ulid = 0
      and cpl = JNull and ucpl = JNull and lpl = JNull and ulpl = JNull and tpl = JNull
      and q = "[]"]
  note thm2 = failures_are_LinkwardenAPIError [where rq = ?rq2
      and x = "search_query ?tr2 demo_client ''tag:work'' []" and tr = ?tr2
      and c = demo_client and w = "[]"
      and m = "[]" and ep = "[]" and kw = no_kwargs
      and cid = 0 and ucid = 0 and lid = 0 and ulid = 0
      and cpl = JNull and ucpl = JNull and lpl = JNull and ulpl = JNull and tpl = JNull
      and q = "''tag:work''"]
  have r1: "isinstance ?e LinkwardenAPIError"
    using thm1 fails lib run by auto
  have r2: "isinstance ?e2 LinkwardenAPIError"
    using thm2 fails2 lib2 run2 by auto
  have r3: "\<not> isinstance ?v LinkwardenAPIError"
    using thm1 bad by auto
  from fails lib run r1 fails2 lib2 run2 r2 bad r3 show ?thesis
    by blast
qed

end
